theory Spec2Isabelle
  imports Main
begin

section \<open>Identifiers and machine integers\<close>

text \<open>
  Item types, qualities and requirement sets are named by strings
  (\<open>itype_id\<close> is a \<open>std::string\<close>, \<open>quality_id\<close> and \<open>requirement_id\<close> are
  \<open>string_id\<close>s). \<open>requirement_id::NULL_ID\<close> is constructed from the literal "null".
\<close>

type_synonym itype_id = string
type_synonym quality_id = string
type_synonym requirement_id = string

definition NULL_ID :: requirement_id where
  "NULL_ID = ''null''"

text \<open>
  Counts, levels and the batch factor are C++ \<open>int\<close>s, 32 bits wide on every platform the
  program is built for. Values are kept as mathematical integers, and the result of every
  arithmetic operation of the source (\<open>*\<close>, \<open>+\<close>, unary \<open>-\<close>, \<open>std::abs\<close>) is reduced to
  the two's complement range by \<open>int32\<close>: a result that leaves the range wraps around, as it
  does in the compiled program (the language leaves signed overflow undefined). The same
  reduction is the conversion \<open>int( scalar )\<close> of an \<open>unsigned\<close> value, which is modular.
  The theorems that need exact arithmetic say in which range it is exact.
\<close>

definition int32 :: "int \<Rightarrow> int" where
  "int32 x = (x + 2147483648) mod 4294967296 - 2147483648"

section \<open>Data model\<close>

text \<open>
  Modelled from the spec: the header \<open>requirements.h\<close> that declares the enumeration
  \<open>available_status\<close>, the structs \<open>component\<close>, \<open>tool_comp\<close>, \<open>item_comp\<close>,
  \<open>quality_requirement\<close> and the class \<open>requirement_data\<close> is not among the sources. The
  spec gives the availability annotation four values with default "unknown"; the source
  file assigns and compares only \<open>a_true\<close>, \<open>a_false\<close> and \<open>a_insufficent\<close>.
\<close>

datatype available_status = a_unknown | a_true | a_false | a_insufficent

text \<open>
  Modelled from the spec: \<open>tool_comp\<close> and \<open>item_comp\<close> share the fields the source file
  reads and writes: \<open>type\<close>, \<open>count\<close>, the mutable \<open>available\<close> and \<open>recoverable\<close>
  (default true). The constructor used by the materials check takes a type and a count.
\<close>

record component =
  type :: itype_id
  count :: int
  available :: available_status
  recoverable :: bool

type_synonym tool_comp = component
type_synonym item_comp = component

definition mk_component :: "itype_id \<Rightarrow> int \<Rightarrow> component" where
  "mk_component t c = \<lparr>type = t, count = c, available = a_unknown, recoverable = True\<rparr>"

text \<open>
  Modelled from the spec: a quality requirement has a quality identifier, a level and a
  count, and the same mutable annotation. The field names carry a suffix where they would
  clash with those of \<open>component\<close>.
\<close>

record quality_requirement =
  type_q :: quality_id
  count_q :: int
  level :: int
  available_q :: available_status

definition mk_quality_requirement :: "quality_id \<Rightarrow> int \<Rightarrow> int \<Rightarrow> quality_requirement" where
  "mk_quality_requirement t c l = \<lparr>type_q = t, count_q = c, level = l, available_q = a_unknown\<rparr>"

record requirement_data =
  id_r :: requirement_id
  components :: "item_comp list list"
  tools :: "tool_comp list list"
  qualities :: "quality_requirement list list"

subsection \<open>External collaborators\<close>

text \<open>
  The inventory is only queried, through four member functions. It is a parameter of the
  model: a record of the four answers.
\<close>

record inventory =
  has_quality :: "quality_id \<Rightarrow> int \<Rightarrow> int \<Rightarrow> bool"
  has_tools :: "itype_id \<Rightarrow> int \<Rightarrow> bool"
  has_charges :: "itype_id \<Rightarrow> int \<Rightarrow> bool"
  has_components :: "itype_id \<Rightarrow> int \<Rightarrow> bool"

text \<open>
  The item type registry (\<open>item::find_type\<close>, \<open>item::count_by_charges\<close>,
  \<open>item( type ).has_flag\<close>) is a parameter too: for every item type whether it is counted by
  charges, the qualities it provides (a \<open>std::map\<close>, iterated in key order, here the list of
  its entries) and its flags.
\<close>

record itype =
  count_by_charges :: bool
  qualities_t :: "(quality_id \<times> int) list"
  item_tags :: "string set"

type_synonym item_factory = "itype_id \<Rightarrow> itype"

text \<open>The player \<open>g->u\<close>, a global of the program, as far as \<open>item_comp::has\<close> reads it.\<close>

record player =
  has_trait :: "string \<Rightarrow> bool"
  get_hunger :: int

section \<open>Algebra: \<open>operator*\<close> and \<open>operator+\<close>\<close>

text \<open>
  \<open>scale_count\<close> is the body of the two loops of \<open>operator*\<close>:
  \<open>e.count = std::max( e.count * int( scalar ), -1 )\<close>. The scalar is an \<open>unsigned\<close>, a
  natural number below \<open>2^32\<close>. The result is a copy of \<open>*this\<close> with the new counts; its
  identifier is the one of \<open>*this\<close>. \<open>operator+\<close> appends the three lists of \<open>rhs\<close> and sets
  the identifier to \<open>NULL_ID\<close>.
\<close>

definition scale_count :: "nat \<Rightarrow> component \<Rightarrow> component" where
  "scale_count scalar e = e\<lparr>count := max (int32 (count e * int32 (int scalar))) (- 1)\<rparr>"

definition operator_mult :: "requirement_data \<Rightarrow> nat \<Rightarrow> requirement_data" where
  "operator_mult r scalar =
     r\<lparr>components := map (map (scale_count scalar)) (components r),
       tools := map (map (scale_count scalar)) (tools r)\<rparr>"

definition operator_add :: "requirement_data \<Rightarrow> requirement_data \<Rightarrow> requirement_data" where
  "operator_add r rhs =
     r\<lparr>components := components r @ components rhs,
       tools := tools r @ tools rhs,
       qualities := qualities r @ qualities rhs,
       id_r := NULL_ID\<rparr>"

section \<open>Satisfiability of single requirements\<close>

text \<open>
  The member functions \<open>quality_requirement::has\<close>, \<open>tool_comp::by_charges\<close>,
  \<open>tool_comp::has\<close> and \<open>item_comp::has\<close>. \<open>web_rope\<close> is the test at the head of
  \<open>item_comp::has\<close>: the item is one of the two ropes, and the player has the trait
  \<open>WEB_ROPE\<close> and a hunger of at most 300.
\<close>

definition quality_has :: "inventory \<Rightarrow> quality_requirement \<Rightarrow> bool" where
  "quality_has crafting_inv q = has_quality crafting_inv (type_q q) (level q) (count_q q)"

definition by_charges :: "tool_comp \<Rightarrow> bool" where
  "by_charges t = (count t > 0)"

definition tool_has :: "inventory \<Rightarrow> int \<Rightarrow> tool_comp \<Rightarrow> bool" where
  "tool_has crafting_inv batch t =
     (if \<not> by_charges t then has_tools crafting_inv (type t) (int32 \<bar>count t\<bar>)
      else has_charges crafting_inv (type t) (int32 (count t * batch)))"

definition web_rope :: "player \<Rightarrow> itype_id \<Rightarrow> bool" where
  "web_rope u t =
     ((t = ''rope_30'' \<or> t = ''rope_6'') \<and> has_trait u ''WEB_ROPE'' \<and> get_hunger u \<le> 300)"

definition item_has :: "item_factory \<Rightarrow> player \<Rightarrow> inventory \<Rightarrow> int \<Rightarrow> item_comp \<Rightarrow> bool" where
  "item_has itypes u crafting_inv batch c =
     (if web_rope u (type c) then True
      else (let cnt = int32 (int32 \<bar>count c\<bar> * batch) in
            if count_by_charges (itypes (type c)) then has_charges crafting_inv (type c) cnt
            else has_components crafting_inv (type c) cnt))"

section \<open>The satisfiability pass\<close>

text \<open>
  \<open>has_comps\<close> is a template over the three kinds of requirement; the model takes the
  member function \<open>has\<close> and the accessors of the annotation as arguments. The inner loop
  annotates every member of a group and reports whether one of them is available.
\<close>

fun has_comps_set ::
  "('a \<Rightarrow> bool) \<Rightarrow> ('a \<Rightarrow> available_status) \<Rightarrow> ('a \<Rightarrow> available_status \<Rightarrow> 'a) \<Rightarrow>
   'a list \<Rightarrow> bool \<times> 'a list" where
  "has_comps_set has get_av set_av [] = (False, [])"
| "has_comps_set has get_av set_av (tool # rest) =
     (let tool' = (if has tool then set_av tool a_true else set_av tool a_false) in
      case has_comps_set has get_av set_av rest of
        (has_rest, rest') \<Rightarrow> (get_av tool' = a_true \<or> has_rest, tool' # rest'))"

fun has_comps ::
  "('a \<Rightarrow> bool) \<Rightarrow> ('a \<Rightarrow> available_status) \<Rightarrow> ('a \<Rightarrow> available_status \<Rightarrow> 'a) \<Rightarrow>
   'a list list \<Rightarrow> bool \<times> 'a list list" where
  "has_comps has get_av set_av [] = (True, [])"
| "has_comps has get_av set_av (set_of_tools # vec) =
     (case has_comps_set has get_av set_av set_of_tools of
        (has_tool_in_set, set') \<Rightarrow>
          (case has_comps has get_av set_av vec of
             (retval, vec') \<Rightarrow> (has_tool_in_set \<and> retval, set' # vec')))"

text \<open>
  \<open>find_by_type\<close> returns the first member of the first group that has the type, or
  \<open>None\<close> for the null pointer.
\<close>

fun find_by_type :: "('a \<Rightarrow> string) \<Rightarrow> 'a list list \<Rightarrow> string \<Rightarrow> 'a option" where
  "find_by_type get_type [] t = None"
| "find_by_type get_type (list # vec) t =
     (case find (\<lambda>cmp. get_type cmp = t) list of
        Some cmp \<Rightarrow> Some cmp
      | None \<Rightarrow> find_by_type get_type vec t)"

text \<open>
  The materials check of one component, \<open>check_enough_materials( comp, crafting_inv, batch )\<close>,
  in the two steps of the source. \<open>check_tool_claim\<close> is the block for the tool of the same
  item type: it is entered when \<open>find_by_type( tools, comp.type )\<close> finds a tool that is
  annotated \<open>a_true\<close>, and tests the two temporaries \<open>i_tmp\<close> and \<open>t_tmp\<close> with batch 1.
  \<open>check_quality_claim\<close> is the body of the loop over the qualities \<open>ql\<close> the item type
  provides, \<open>check_quality_claims\<close> the loop. \<open>check_enough_materials_comp\<close> returns the
  boolean of the source and the component with its new annotation.
  \<open>check_enough_materials_choices\<close> and \<open>check_enough_materials_groups\<close> are the inner and
  the outer loop of \<open>check_enough_materials( crafting_inv, batch )\<close>; the tools and qualities
  they read are those of the requirement \<open>r\<close>, which the loops do not change.
\<close>

definition check_tool_claim ::
  "item_factory \<Rightarrow> player \<Rightarrow> requirement_data \<Rightarrow> inventory \<Rightarrow> int \<Rightarrow> item_comp \<Rightarrow> item_comp" where
  "check_tool_claim itypes u r crafting_inv batch cmp =
     (let cnt = int32 (int32 \<bar>count cmp\<bar> * batch) in
      case find_by_type type (tools r) (type cmp) of
        None \<Rightarrow> cmp
      | Some tq \<Rightarrow>
          if available tq = a_true then
            (let tc = (if by_charges tq then 1 else int32 \<bar>count tq\<bar>);
                 i_tmp = mk_component (type cmp) (int32 (cnt + tc));
                 t_tmp = mk_component (type cmp) (int32 (- int32 (cnt + tc)))
             in if \<not> item_has itypes u crafting_inv 1 i_tmp \<and> \<not> tool_has crafting_inv 1 t_tmp
                then cmp\<lparr>available := a_insufficent\<rparr> else cmp)
          else cmp)"

definition check_quality_claim ::
  "requirement_data \<Rightarrow> inventory \<Rightarrow> quality_id \<times> int \<Rightarrow> item_comp \<Rightarrow> item_comp" where
  "check_quality_claim r crafting_inv ql cmp =
     (case find_by_type type_q (qualities r) (fst ql) of
        None \<Rightarrow> cmp
      | Some qr \<Rightarrow>
          if level qr > snd ql then cmp
          else if \<not> has_quality crafting_inv (type_q qr) (level qr)
                     (int32 (count_q qr + int32 \<bar>count cmp\<bar>))
               then cmp\<lparr>available := a_insufficent\<rparr>
               else cmp)"

definition check_quality_claims ::
  "item_factory \<Rightarrow> requirement_data \<Rightarrow> inventory \<Rightarrow> item_comp \<Rightarrow> item_comp" where
  "check_quality_claims itypes r crafting_inv cmp =
     fold (check_quality_claim r crafting_inv) (qualities_t (itypes (type cmp))) cmp"

definition check_enough_materials_comp ::
  "item_factory \<Rightarrow> player \<Rightarrow> requirement_data \<Rightarrow> item_comp \<Rightarrow> inventory \<Rightarrow> int \<Rightarrow>
   bool \<times> item_comp" where
  "check_enough_materials_comp itypes u r cmp crafting_inv batch =
     (if available cmp \<noteq> a_true then (False, cmp)
      else (let cmp' = check_quality_claims itypes r crafting_inv
                          (check_tool_claim itypes u r crafting_inv batch cmp)
            in (available cmp' = a_true, cmp')))"

fun check_enough_materials_choices ::
  "item_factory \<Rightarrow> player \<Rightarrow> requirement_data \<Rightarrow> inventory \<Rightarrow> int \<Rightarrow> item_comp list \<Rightarrow>
   bool \<times> item_comp list" where
  "check_enough_materials_choices itypes u r crafting_inv batch [] = (False, [])"
| "check_enough_materials_choices itypes u r crafting_inv batch (cmp # rest) =
     (case check_enough_materials_comp itypes u r cmp crafting_inv batch of
        (ok, cmp') \<Rightarrow>
          (case check_enough_materials_choices itypes u r crafting_inv batch rest of
             (atleast_one_available, rest') \<Rightarrow> (ok \<or> atleast_one_available, cmp' # rest')))"

fun check_enough_materials_groups ::
  "item_factory \<Rightarrow> player \<Rightarrow> requirement_data \<Rightarrow> inventory \<Rightarrow> int \<Rightarrow> item_comp list list \<Rightarrow>
   bool \<times> item_comp list list" where
  "check_enough_materials_groups itypes u r crafting_inv batch [] = (True, [])"
| "check_enough_materials_groups itypes u r crafting_inv batch (component_choices # vec) =
     (case check_enough_materials_choices itypes u r crafting_inv batch component_choices of
        (atleast_one_available, choices') \<Rightarrow>
          (case check_enough_materials_groups itypes u r crafting_inv batch vec of
             (retval, vec') \<Rightarrow> (atleast_one_available \<and> retval, choices' # vec')))"

definition check_enough_materials ::
  "item_factory \<Rightarrow> player \<Rightarrow> requirement_data \<Rightarrow> inventory \<Rightarrow> int \<Rightarrow> bool \<times> requirement_data" where
  "check_enough_materials itypes u r crafting_inv batch =
     (case check_enough_materials_groups itypes u r crafting_inv batch (components r) of
        (retval, comps') \<Rightarrow> (retval, r\<lparr>components := comps'\<rparr>))"

text \<open>
  \<open>can_make_with_inventory\<close> makes all four calls, each on the annotations the calls before
  it left, and returns the conjunction together with the annotated requirement.
\<close>

definition can_make_with_inventory ::
  "item_factory \<Rightarrow> player \<Rightarrow> requirement_data \<Rightarrow> inventory \<Rightarrow> int \<Rightarrow> bool \<times> requirement_data" where
  "can_make_with_inventory itypes u r crafting_inv batch =
     (case has_comps (quality_has crafting_inv) available_q (\<lambda>q v. q\<lparr>available_q := v\<rparr>)
             (qualities r) of
        (ok_q, qs) \<Rightarrow>
     (case has_comps (tool_has crafting_inv batch) available (\<lambda>t v. t\<lparr>available := v\<rparr>)
             (tools r) of
        (ok_t, ts) \<Rightarrow>
     (case has_comps (item_has itypes u crafting_inv batch) available (\<lambda>c v. c\<lparr>available := v\<rparr>)
             (components r) of
        (ok_c, cs) \<Rightarrow>
     (case check_enough_materials itypes u (r\<lparr>qualities := qs, tools := ts, components := cs\<rparr>)
             crafting_inv batch of
        (ok_m, r') \<Rightarrow> (ok_q \<and> ok_t \<and> ok_c \<and> ok_m, r')))))"

section \<open>The disassembly derivation\<close>

text \<open>
  The scan of one tool group stops at the first tool of the substitution table: the result
  is the qualities it adds to \<open>new_qualities\<close>, or \<open>None\<close> when no tool matches
  (\<open>replaced\<close> stays false).
\<close>

fun tool_replacement :: "tool_comp list \<Rightarrow> quality_requirement list option" where
  "tool_replacement [] = None"
| "tool_replacement (tool # rest) =
     (if type tool = ''welder'' \<or> type tool = ''welder_crude'' \<or> type tool = ''oxy_torch'' \<or>
         type tool = ''forge'' \<or> type tool = ''char_forge''
      then Some [mk_quality_requirement ''SAW_M_FINE'' 1 1]
      else if type tool = ''sewing_kit'' \<or> type tool = ''mold_plastic''
      then Some [mk_quality_requirement ''CUT'' 1 1]
      else if type tool = ''crucible'' then Some []
      else tool_replacement rest)"

text \<open>The loop over the tool groups: the groups after clearing, and \<open>new_qualities\<close>.\<close>

fun replace_tools ::
  "tool_comp list list \<Rightarrow> quality_requirement list \<Rightarrow>
   tool_comp list list \<times> quality_requirement list" where
  "replace_tools [] new_qualities = ([], new_qualities)"
| "replace_tools (it # rest) new_qualities =
     (case tool_replacement it of
        None \<Rightarrow>
          (case replace_tools rest new_qualities of (rest', nq) \<Rightarrow> (it # rest', nq))
      | Some qs \<Rightarrow>
          (case replace_tools rest (new_qualities @ qs) of (rest', nq) \<Rightarrow> ([] # rest', nq)))"

text \<open>\<open>std::unique\<close> with a binary predicate: of every run of equivalent neighbours the first stays.\<close>

fun unique_by :: "('a \<Rightarrow> 'a \<Rightarrow> bool) \<Rightarrow> 'a list \<Rightarrow> 'a list" where
  "unique_by eq [] = []"
| "unique_by eq [x] = [x]"
| "unique_by eq (x # y # ys) =
     (if eq x y then unique_by eq (x # ys) else x # unique_by eq (y # ys))"

text \<open>
  The predicate of the inner \<open>remove_if\<close> over a component group. The derivation copies
  \<open>*this\<close>, clears the tool groups that are replaced, makes sure there is a first quality
  group, appends \<open>new_qualities\<close> to it and applies \<open>std::unique\<close>, erases the empty tool
  groups, thins every component group and erases those left empty.
\<close>

definition unrecoverable :: "item_factory \<Rightarrow> item_comp \<Rightarrow> bool" where
  "unrecoverable itypes cmp =
     (\<not> recoverable cmp \<or> ''UNRECOVERABLE'' \<in> item_tags (itypes (type cmp)))"

definition disassembly_requirements :: "item_factory \<Rightarrow> requirement_data \<Rightarrow> requirement_data" where
  "disassembly_requirements itypes r =
     (case replace_tools (tools r) [] of
        (tools', new_qualities) \<Rightarrow>
          (let quals = (if qualities r = [] then [[]] else qualities r);
               first_group = unique_by (\<lambda>a b. type_q a = type_q b) (hd quals @ new_qualities)
           in r\<lparr>qualities := first_group # tl quals,
                tools := filter (\<lambda>tcv. tcv \<noteq> []) tools',
                components :=
                  filter (\<lambda>cov. cov \<noteq> [])
                    (map (filter (\<lambda>cmp. \<not> unrecoverable itypes cmp)) (components r))\<rparr>))"

section \<open>Closed forms of the loops\<close>

text \<open>
  Two abbreviations for the proofs, not functions of the program: the requirement after the
  three calls of \<open>has_comps\<close>, and after the loop of \<open>check_enough_materials\<close>.
\<close>

definition has_comps_all ::
  "item_factory \<Rightarrow> player \<Rightarrow> requirement_data \<Rightarrow> inventory \<Rightarrow> int \<Rightarrow> requirement_data" where
  "has_comps_all itypes u r crafting_inv batch =
     r\<lparr>qualities :=
         map (map (\<lambda>q. q\<lparr>available_q := (if quality_has crafting_inv q then a_true else a_false)\<rparr>))
           (qualities r),
       tools :=
         map (map (\<lambda>t. t\<lparr>available := (if tool_has crafting_inv batch t then a_true else a_false)\<rparr>))
           (tools r),
       components :=
         map (map (\<lambda>c. c\<lparr>available :=
                (if item_has itypes u crafting_inv batch c then a_true else a_false)\<rparr>))
           (components r)\<rparr>"

definition materials_checked ::
  "item_factory \<Rightarrow> player \<Rightarrow> requirement_data \<Rightarrow> inventory \<Rightarrow> int \<Rightarrow> requirement_data" where
  "materials_checked itypes u r crafting_inv batch =
     r\<lparr>components :=
         map (map (\<lambda>c. snd (check_enough_materials_comp itypes u r c crafting_inv batch)))
           (components r)\<rparr>"

section \<open>Example requirement sets, inventories and item types\<close>

text \<open>
  Concrete inputs on which the theorems below are evaluated. \<open>stock\<close> is an inventory that
  answers every query from the amount held of an item type and from the number of tools held
  with a quality at a level; \<open>only X n\<close> holds \<open>n\<close> units of \<open>X\<close> and nothing else.
  \<open>four_jacks\<close> holds four jacks, which have no charges.
  \<open>plain_types\<close> is a registry in which no item type is counted by charges, provides a
  quality or carries a flag; \<open>nobody\<close> is a player without traits.
\<close>

definition plain_types :: item_factory where
  "plain_types = (\<lambda>t. \<lparr>count_by_charges = False, qualities_t = [], item_tags = {}\<rparr>)"

definition nobody :: player where
  "nobody = \<lparr>has_trait = (\<lambda>t. False), get_hunger = 0\<rparr>"

definition spider :: player where
  "spider = \<lparr>has_trait = (\<lambda>t. t = ''WEB_ROPE''), get_hunger = 0\<rparr>"

definition stock :: "(itype_id \<Rightarrow> int) \<Rightarrow> (quality_id \<Rightarrow> int \<Rightarrow> int) \<Rightarrow> inventory" where
  "stock amount tools_with =
     \<lparr>has_quality = (\<lambda>q l n. n \<le> tools_with q l),
      has_tools = (\<lambda>t n. n \<le> amount t),
      has_charges = (\<lambda>t n. n \<le> amount t),
      has_components = (\<lambda>t n. n \<le> amount t)\<rparr>"

definition only :: "itype_id \<Rightarrow> int \<Rightarrow> inventory" where
  "only X n = stock (\<lambda>t. if t = X then n else 0) (\<lambda>q l. 0)"

definition four_jacks :: inventory where
  "four_jacks =
     \<lparr>has_quality = (\<lambda>q l n. n \<le> 0),
      has_tools = (\<lambda>t n. n \<le> (if t = ''jack'' then 4 else 0)),
      has_charges = (\<lambda>t n. n \<le> 0),
      has_components = (\<lambda>t n. n \<le> (if t = ''jack'' then 4 else 0))\<rparr>"

definition two_knives :: inventory where
  "two_knives = stock (\<lambda>t. if t = ''knife_steak'' then 2 else 0)
                      (\<lambda>q l. if q = ''CUT'' \<and> l \<le> 1 then 2 else 0)"

definition toolbox :: inventory where
  "toolbox = stock (\<lambda>t. if t = ''hammer'' then 1 else if t = ''nail'' then 10 else 0)
                   (\<lambda>q l. if q = ''SAW_W'' \<and> l \<le> 2 then 1 else 0)"

definition one_knife :: inventory where
  "one_knife = stock (\<lambda>t. if t = ''knife_steak'' then 1 else 0)
                     (\<lambda>q l. if q = ''CUT'' \<and> l \<le> 1 then 1 else 0)"

definition knife_types :: item_factory where
  "knife_types = (\<lambda>t. \<lparr>count_by_charges = False,
                        qualities_t = (if t = ''knife_steak'' then [(''CUT'', 1)] else []),
                        item_tags = {}\<rparr>)"

definition glue_types :: item_factory where
  "glue_types = (\<lambda>t. \<lparr>count_by_charges = (t = ''duct_tape''), qualities_t = [],
                       item_tags = (if t = ''duct_tape'' then {''UNRECOVERABLE''} else {})\<rparr>)"

definition hammer_nails :: requirement_data where
  "hammer_nails =
     \<lparr>id_r = ''hammer_nails'',
      components = [[mk_component ''nail'' 10, mk_component ''spike'' 2]],
      tools = [[mk_component ''hammer'' (- 1)]],
      qualities = [[mk_quality_requirement ''SAW_W'' 1 1]]\<rparr>"

definition soldering :: requirement_data where
  "soldering =
     \<lparr>id_r = ''soldering'',
      components = [[mk_component ''solder_wire'' 3]],
      tools = [[mk_component ''soldering_iron'' 10], [mk_component ''vise'' (- 2)]],
      qualities = [[mk_quality_requirement ''SCREW'' 1 1]]\<rparr>"

definition welded_frame :: requirement_data where
  "welded_frame =
     \<lparr>id_r = ''welded_frame'',
      components = [[mk_component ''pipe'' 4]],
      tools = [[mk_component ''welder'' 50]],
      qualities = [[mk_quality_requirement ''HAMMER'' 1 2]]\<rparr>"

definition welded_only :: requirement_data where
  "welded_only =
     \<lparr>id_r = ''welded_only'',
      components = [[mk_component ''pipe'' 4]],
      tools = [[mk_component ''goggles_welding'' (- 1), mk_component ''welder'' 50,
                mk_component ''sewing_kit'' 5]],
      qualities = []\<rparr>"

definition tailored_armor :: requirement_data where
  "tailored_armor =
     \<lparr>id_r = ''tailored_armor'',
      components = [[mk_component ''steel_chunk'' 2]],
      tools = [[mk_component ''sewing_kit'' 10], [mk_component ''welder'' 20],
               [mk_component ''mold_plastic'' (- 1)]],
      qualities = []\<rparr>"

definition glued_box :: requirement_data where
  "glued_box =
     \<lparr>id_r = ''glued_box'',
      components = [[mk_component ''plank'' 4],
                    [(mk_component ''superglue'' 1)\<lparr>recoverable := False\<rparr>,
                     mk_component ''duct_tape'' 20],
                    [mk_component ''nail'' 8]],
      tools = [[mk_component ''hammer'' (- 1)]],
      qualities = []\<rparr>"

definition empty_tool_group :: requirement_data where
  "empty_tool_group =
     \<lparr>id_r = ''empty_tool_group'',
      components = [[mk_component ''nail'' 8]],
      tools = [[]],
      qualities = [[mk_quality_requirement ''SAW_W'' 1 1]]\<rparr>"

definition knife_set :: requirement_data where
  "knife_set =
     \<lparr>id_r = ''knife_set'',
      components = [[mk_component ''knife_steak'' 1]],
      tools = [],
      qualities = [[mk_quality_requirement ''CUT'' 2 1]]\<rparr>"

definition carving :: requirement_data where
  "carving =
     \<lparr>id_r = ''carving'',
      components = [[mk_component ''knife_steak'' 1]],
      tools = [],
      qualities = [[mk_quality_requirement ''CUT'' 1 1]]\<rparr>"

definition jack_stand :: requirement_data where
  "jack_stand =
     \<lparr>id_r = ''jack_stand'',
      components = [[mk_component ''jack'' 3]],
      tools = [[mk_component ''jack'' (- 2)]],
      qualities = []\<rparr>"

definition double_jack :: requirement_data where
  "double_jack =
     \<lparr>id_r = ''double_jack'',
      components = [[mk_component ''jack'' 1]],
      tools = [[mk_component ''jack'' (- 1)], [mk_component ''jack'' (- 3)]],
      qualities = []\<rparr>"

definition rope_work :: requirement_data where
  "rope_work =
     \<lparr>id_r = ''rope_work'',
      components = [[mk_component ''rope_30'' 1]],
      tools = [[mk_component ''rope_30'' (- 1)]],
      qualities = []\<rparr>"

section \<open>Properties of the satisfiability pass\<close>

lemma int32_id: "- 2147483648 \<le> x \<Longrightarrow> x < 2147483648 \<Longrightarrow> int32 x = x"
  by (simp add: int32_def)

lemma has_comps_set_eq:
  assumes "\<And>x v. get_av (set_av x v) = v"
  shows "has_comps_set has get_av set_av xs =
     (\<exists>x\<in>set xs. has x, map (\<lambda>x. set_av x (if has x then a_true else a_false)) xs)"
  using assms by (induction xs) (auto simp: Let_def)

lemma has_comps_eq:
  assumes "\<And>x v. get_av (set_av x v) = v"
  shows "has_comps has get_av set_av vec =
     (\<forall>g\<in>set vec. \<exists>x\<in>set g. has x,
      map (map (\<lambda>x. set_av x (if has x then a_true else a_false))) vec)"
  using assms by (induction vec) (auto simp: has_comps_set_eq)

lemma cem_choices_eq:
  "check_enough_materials_choices itypes u r ci batch xs =
     (\<exists>c\<in>set xs. fst (check_enough_materials_comp itypes u r c ci batch),
      map (\<lambda>c. snd (check_enough_materials_comp itypes u r c ci batch)) xs)"
  by (induction xs) (auto split: prod.splits)

lemma cem_groups_eq:
  "check_enough_materials_groups itypes u r ci batch vec =
     (\<forall>g\<in>set vec. \<exists>c\<in>set g. fst (check_enough_materials_comp itypes u r c ci batch),
      map (map (\<lambda>c. snd (check_enough_materials_comp itypes u r c ci batch))) vec)"
  by (induction vec) (auto simp: cem_choices_eq split: prod.splits)

lemma find_by_type_map:
  assumes "\<And>x. get_type (g x) = get_type x"
  shows "find_by_type get_type (map (map g) vec) t = map_option g (find_by_type get_type vec t)"
proof (induction vec)
  case Nil
  show ?case by simp
next
  case (Cons l vec)
  have "find (\<lambda>c. get_type c = t) (map g l) = map_option g (find (\<lambda>c. get_type c = t) l)"
    by (induction l) (auto simp: assms)
  with Cons show ?case by (auto split: option.splits)
qed

lemma check_enough_materials_eq:
  "check_enough_materials itypes u r ci batch =
     (\<forall>g\<in>set (components r). \<exists>c\<in>set g. fst (check_enough_materials_comp itypes u r c ci batch),
      materials_checked itypes u r ci batch)"
  by (simp add: check_enough_materials_def cem_groups_eq materials_checked_def)

lemma can_make_state:
  "snd (can_make_with_inventory itypes u r ci batch) =
     materials_checked itypes u (has_comps_all itypes u r ci batch) ci batch"
  by (simp add: can_make_with_inventory_def has_comps_eq check_enough_materials_eq
      has_comps_all_def split: prod.splits)

lemma can_make_result:
  "fst (can_make_with_inventory itypes u r ci batch) =
     ((\<forall>g\<in>set (qualities r). \<exists>q\<in>set g. quality_has ci q) \<and>
      (\<forall>g\<in>set (tools r). \<exists>t\<in>set g. tool_has ci batch t) \<and>
      (\<forall>g\<in>set (components r). \<exists>c\<in>set g. item_has itypes u ci batch c) \<and>
      (\<forall>g\<in>set (components (has_comps_all itypes u r ci batch)).
         \<exists>c\<in>set g. fst (check_enough_materials_comp itypes u
                           (has_comps_all itypes u r ci batch) c ci batch)))"
  by (simp add: can_make_with_inventory_def has_comps_eq check_enough_materials_eq
      has_comps_all_def split: prod.splits)

lemma check_tool_claim_frame:
  "(check_tool_claim itypes u r ci batch c)\<lparr>available := v\<rparr> = c\<lparr>available := v\<rparr>"
  by (simp add: check_tool_claim_def Let_def split: option.splits)

lemma check_quality_claim_frame:
  "(check_quality_claim r ci ql c)\<lparr>available := v\<rparr> = c\<lparr>available := v\<rparr>"
  by (simp add: check_quality_claim_def split: option.splits)

lemma fold_check_quality_claim_frame:
  "(fold (check_quality_claim r ci) qls c)\<lparr>available := v\<rparr> = c\<lparr>available := v\<rparr>"
  by (induction qls arbitrary: c) (simp_all add: check_quality_claim_frame)

lemma check_quality_claims_frame:
  "(check_quality_claims itypes r ci c)\<lparr>available := v\<rparr> = c\<lparr>available := v\<rparr>"
  by (simp add: check_quality_claims_def fold_check_quality_claim_frame)

lemma check_enough_materials_comp_frame:
  "(snd (check_enough_materials_comp itypes u r c ci batch))\<lparr>available := v\<rparr> = c\<lparr>available := v\<rparr>"
  by (simp add: check_enough_materials_comp_def Let_def check_quality_claims_frame
      check_tool_claim_frame)

lemma item_has_available [simp]:
  "item_has itypes u ci batch (c\<lparr>available := v\<rparr>) = item_has itypes u ci batch c"
  by (simp add: item_has_def)

lemma tool_has_available [simp]:
  "tool_has ci batch (t\<lparr>available := v\<rparr>) = tool_has ci batch t"
  by (simp add: tool_has_def by_charges_def)

lemma quality_has_available [simp]:
  "quality_has ci (q\<lparr>available_q := v\<rparr>) = quality_has ci q"
  by (simp add: quality_has_def)

lemma item_has_frame:
  assumes "c'\<lparr>available := a_unknown\<rparr> = c\<lparr>available := a_unknown\<rparr>"
  shows "item_has itypes u ci batch c' = item_has itypes u ci batch c"
proof -
  have "item_has itypes u ci batch c' = item_has itypes u ci batch (c'\<lparr>available := a_unknown\<rparr>)"
    by simp
  also have "\<dots> = item_has itypes u ci batch c"
    by (simp only: assms item_has_available)
  finally show ?thesis .
qed

lemma annotate_after_check:
  "(snd (check_enough_materials_comp itypes u r (c\<lparr>available := w\<rparr>) ci batch))
      \<lparr>available := (if item_has itypes u ci batch
          (snd (check_enough_materials_comp itypes u r (c\<lparr>available := w\<rparr>) ci batch))
         then a_true else a_false)\<rparr>
   = c\<lparr>available := (if item_has itypes u ci batch c then a_true else a_false)\<rparr>"
proof -
  let ?c' = "snd (check_enough_materials_comp itypes u r (c\<lparr>available := w\<rparr>) ci batch)"
  have fr: "?c'\<lparr>available := v\<rparr> = c\<lparr>available := v\<rparr>" for v
    by (simp add: check_enough_materials_comp_frame)
  have "item_has itypes u ci batch ?c' = item_has itypes u ci batch c"
    by (rule item_has_frame) (simp only: fr)
  then show ?thesis by (simp only: fr)
qed

lemma has_comps_all_again:
  "has_comps_all itypes u
     (materials_checked itypes u (has_comps_all itypes u r ci batch) ci batch) ci batch
   = has_comps_all itypes u r ci batch"
  by (simp add: has_comps_all_def materials_checked_def comp_def annotate_after_check)

lemma can_make_factors:
  "can_make_with_inventory itypes u r ci batch =
     (let r1 = has_comps_all itypes u r ci batch in
      ((\<forall>g\<in>set (qualities r1). \<exists>q\<in>set g. available_q q = a_true) \<and>
       (\<forall>g\<in>set (tools r1). \<exists>t\<in>set g. available t = a_true) \<and>
       (\<forall>g\<in>set (components r1). \<exists>c\<in>set g. available c = a_true) \<and>
       (\<forall>g\<in>set (components r1). \<exists>c\<in>set g.
           fst (check_enough_materials_comp itypes u r1 c ci batch)),
       materials_checked itypes u r1 ci batch))"
proof -
  have "fst (can_make_with_inventory itypes u r ci batch) =
      fst (let r1 = has_comps_all itypes u r ci batch in
      ((\<forall>g\<in>set (qualities r1). \<exists>q\<in>set g. available_q q = a_true) \<and>
       (\<forall>g\<in>set (tools r1). \<exists>t\<in>set g. available t = a_true) \<and>
       (\<forall>g\<in>set (components r1). \<exists>c\<in>set g. available c = a_true) \<and>
       (\<forall>g\<in>set (components r1). \<exists>c\<in>set g.
           fst (check_enough_materials_comp itypes u r1 c ci batch)),
       materials_checked itypes u r1 ci batch))"
    unfolding can_make_result Let_def fst_conv
    by (simp add: has_comps_all_def)
  moreover have "snd (can_make_with_inventory itypes u r ci batch) =
      snd (let r1 = has_comps_all itypes u r ci batch in
      ((\<forall>g\<in>set (qualities r1). \<exists>q\<in>set g. available_q q = a_true) \<and>
       (\<forall>g\<in>set (tools r1). \<exists>t\<in>set g. available t = a_true) \<and>
       (\<forall>g\<in>set (components r1). \<exists>c\<in>set g. available c = a_true) \<and>
       (\<forall>g\<in>set (components r1). \<exists>c\<in>set g.
           fst (check_enough_materials_comp itypes u r1 c ci batch)),
       materials_checked itypes u r1 ci batch))"
    by (simp add: can_make_state Let_def)
  ultimately show ?thesis by (rule prod_eqI)
qed

text \<open>
  Claim C3. A second call of \<open>can_make_with_inventory\<close> on the requirement as the first
  call left it, with the same inventory, item types, player and batch, returns the same
  boolean and leaves every annotation as the first call left it.
\<close>

theorem can_make_idempotent:
  "can_make_with_inventory itypes u (snd (can_make_with_inventory itypes u r ci batch)) ci batch
   = can_make_with_inventory itypes u r ci batch"
proof -
  let ?r2 = "snd (can_make_with_inventory itypes u r ci batch)"
  have same: "has_comps_all itypes u ?r2 ci batch = has_comps_all itypes u r ci batch"
    by (simp only: can_make_state has_comps_all_again)
  show ?thesis
    by (subst can_make_factors, subst (2) can_make_factors, simp only: same)
qed

lemmas run_simps = can_make_with_inventory_def check_enough_materials_def
  check_enough_materials_comp_def check_quality_claims_def check_quality_claim_def
  check_tool_claim_def item_has_def tool_has_def quality_has_def by_charges_def web_rope_def
  mk_component_def mk_quality_requirement_def int32_def Let_def

lemma check_tool_claim_available:
  "available (check_tool_claim itypes u r ci batch c) = available c \<or>
   available (check_tool_claim itypes u r ci batch c) = a_insufficent"
  by (simp add: check_tool_claim_def Let_def split: option.splits)

lemma check_quality_claim_available:
  "available (check_quality_claim r ci ql c) = available c \<or>
   available (check_quality_claim r ci ql c) = a_insufficent"
  by (simp add: check_quality_claim_def split: option.splits)

lemma fold_check_quality_claim_available:
  "available (fold (check_quality_claim r ci) qls c) = available c \<or>
   available (fold (check_quality_claim r ci) qls c) = a_insufficent"
proof (induction qls arbitrary: c)
  case Nil
  show ?case by simp
next
  case (Cons ql qls)
  from Cons [of "check_quality_claim r ci ql c"] check_quality_claim_available [of r ci ql c]
  show ?case by auto
qed

lemma check_enough_materials_comp_available:
  "available (snd (check_enough_materials_comp itypes u r c ci batch)) = available c \<or>
   available (snd (check_enough_materials_comp itypes u r c ci batch)) = a_insufficent"
  using fold_check_quality_claim_available
          [of r ci "qualities_t (itypes (type (check_tool_claim itypes u r ci batch c)))"
              "check_tool_claim itypes u r ci batch c"]
        check_tool_claim_available [of itypes u r ci batch c]
  by (auto simp: check_enough_materials_comp_def Let_def check_quality_claims_def)

text \<open>
  Claim C10. After \<open>can_make_with_inventory\<close> every quality requirement and every tool is
  annotated \<open>a_true\<close> or \<open>a_false\<close>, and every component \<open>a_true\<close>, \<open>a_false\<close> or
  \<open>a_insufficent\<close>: no annotation is \<open>a_unknown\<close>, and only a component can be
  \<open>a_insufficent\<close>.
\<close>

theorem can_make_annotations:
  "(\<forall>g\<in>set (qualities (snd (can_make_with_inventory itypes u r ci batch))). \<forall>q\<in>set g.
       available_q q = a_true \<or> available_q q = a_false) \<and>
   (\<forall>g\<in>set (tools (snd (can_make_with_inventory itypes u r ci batch))). \<forall>t\<in>set g.
       available t = a_true \<or> available t = a_false) \<and>
   (\<forall>g\<in>set (components (snd (can_make_with_inventory itypes u r ci batch))). \<forall>c\<in>set g.
       available c = a_true \<or> available c = a_false \<or> available c = a_insufficent)"
proof (intro conjI ballI)
  fix g q
  assume "g \<in> set (qualities (snd (can_make_with_inventory itypes u r ci batch)))" "q \<in> set g"
  then show "available_q q = a_true \<or> available_q q = a_false"
    by (auto simp: can_make_state materials_checked_def has_comps_all_def split: if_splits)
next
  fix g t
  assume "g \<in> set (tools (snd (can_make_with_inventory itypes u r ci batch)))" "t \<in> set g"
  then show "available t = a_true \<or> available t = a_false"
    by (auto simp: can_make_state materials_checked_def has_comps_all_def split: if_splits)
next
  fix g c
  assume "g \<in> set (components (snd (can_make_with_inventory itypes u r ci batch)))" "c \<in> set g"
  then obtain c0 where
    c: "c = snd (check_enough_materials_comp itypes u (has_comps_all itypes u r ci batch)
                  c0 ci batch)"
    and c0: "available c0 = a_true \<or> available c0 = a_false"
    by (auto simp: can_make_state materials_checked_def has_comps_all_def split: if_splits)
  from check_enough_materials_comp_available
         [of itypes u "has_comps_all itypes u r ci batch" c0 ci batch] c c0
  show "available c = a_true \<or> available c = a_false \<or> available c = a_insufficent"
    by auto
qed

theorem can_make_annotations_witness:
  "map (map available_q) (qualities (snd (can_make_with_inventory plain_types nobody hammer_nails toolbox 1)))
     = [[a_true]] \<and>
   map (map available) (tools (snd (can_make_with_inventory plain_types nobody hammer_nails toolbox 1)))
     = [[a_true]] \<and>
   map (map available) (components (snd (can_make_with_inventory plain_types nobody hammer_nails toolbox 1)))
     = [[a_true, a_false]]"
  using can_make_annotations [of plain_types nobody hammer_nails toolbox 1]
  by (simp add: run_simps hammer_nails_def toolbox_def stock_def plain_types_def nobody_def)

subsection \<open>The materials check\<close>

lemma check_quality_claim_eq:
  "check_quality_claim r ci ql c =
     (if \<exists>qr. find_by_type type_q (qualities r) (fst ql) = Some qr \<and> level qr \<le> snd ql \<and>
               \<not> has_quality ci (type_q qr) (level qr) (int32 (count_q qr + int32 \<bar>count c\<bar>))
      then c\<lparr>available := a_insufficent\<rparr> else c)"
  by (auto simp: check_quality_claim_def split: option.splits)

lemma fold_check_quality_claim_eq:
  "available (fold (check_quality_claim r ci) qls c) =
     (if \<exists>ql\<in>set qls. \<exists>qr. find_by_type type_q (qualities r) (fst ql) = Some qr \<and>
            level qr \<le> snd ql \<and>
            \<not> has_quality ci (type_q qr) (level qr) (int32 (count_q qr + int32 \<bar>count c\<bar>))
      then a_insufficent else available c)"
proof (induction qls arbitrary: c)
  case Nil
  show ?case by simp
next
  case (Cons ql qls)
  show ?case
    by (simp only: fold_simps Cons.IH) (auto simp: check_quality_claim_eq)
qed

lemma check_tool_claim_cases:
  "check_tool_claim itypes u r ci batch c = c \<or>
   check_tool_claim itypes u r ci batch c = c\<lparr>available := a_insufficent\<rparr>"
  by (simp add: check_tool_claim_def Let_def split: option.splits)

text \<open>
  Claim C2, as amended. In the materials check of one component that is annotated \<open>a_true\<close>,
  whose magnitude fits an \<open>int\<close>: call a quality requirement matching when it is the first
  requirement in the quality list of a quality the component's item type provides, and its
  level is not above the provided one; the requirement's count plus the component's magnitude
  is to fit an \<open>int\<close> for every matching requirement. Then the component ends
  \<open>a_insufficent\<close>, and the check returns false, exactly when the tool step has demoted it or
  the inventory cannot supply, for some matching requirement, the quality at the required
  level with the combined count; otherwise the component is unchanged and the check returns
  true. So the quality step demotes a component that is still \<open>a_true\<close> exactly on the second
  condition. The annotation of the quality requirement is not read: a requirement that is not
  satisfied demotes the component too.
\<close>

theorem quality_claims_demotion:
  assumes av: "available c = a_true"
    and mag: "\<bar>count c\<bar> < 2147483648"
    and rng: "\<forall>ql\<in>set (qualities_t (itypes (type c))). \<forall>qr.
        find_by_type type_q (qualities r) (fst ql) = Some qr \<and> level qr \<le> snd ql \<longrightarrow>
        - 2147483648 \<le> count_q qr + \<bar>count c\<bar> \<and> count_q qr + \<bar>count c\<bar> < 2147483648"
  shows "check_enough_materials_comp itypes u r c ci batch =
     (if available (check_tool_claim itypes u r ci batch c) = a_insufficent \<or>
         (\<exists>ql\<in>set (qualities_t (itypes (type c))). \<exists>qr.
             find_by_type type_q (qualities r) (fst ql) = Some qr \<and> level qr \<le> snd ql \<and>
             \<not> has_quality ci (type_q qr) (level qr) (count_q qr + \<bar>count c\<bar>))
      then (False, c\<lparr>available := a_insufficent\<rparr>) else (True, c))"
proof -
  let ?Q = "\<exists>ql\<in>set (qualities_t (itypes (type c))). \<exists>qr.
      find_by_type type_q (qualities r) (fst ql) = Some qr \<and> level qr \<le> snd ql \<and>
      \<not> has_quality ci (type_q qr) (level qr) (count_q qr + \<bar>count c\<bar>)"
  let ?c1 = "check_tool_claim itypes u r ci batch c"
  let ?c2 = "check_quality_claims itypes r ci ?c1"
  have abs: "int32 \<bar>count c\<bar> = \<bar>count c\<bar>"
    using mag by (simp add: int32_id)
  have sum: "int32 (count_q qr + \<bar>count c\<bar>) = count_q qr + \<bar>count c\<bar>"
    if "ql \<in> set (qualities_t (itypes (type c)))"
      and "find_by_type type_q (qualities r) (fst ql) = Some qr" and "level qr \<le> snd ql"
    for ql qr
    using rng that by (intro int32_id) blast+
  have c1: "?c1 = c \<or> ?c1 = c\<lparr>available := a_insufficent\<rparr>"
    by (rule check_tool_claim_cases)
  then have same: "type ?c1 = type c" "count ?c1 = count c"
    by auto
  have wrapped: "(\<exists>ql\<in>set (qualities_t (itypes (type c))). \<exists>qr.
      find_by_type type_q (qualities r) (fst ql) = Some qr \<and> level qr \<le> snd ql \<and>
      \<not> has_quality ci (type_q qr) (level qr) (int32 (count_q qr + int32 \<bar>count c\<bar>))) = ?Q"
    unfolding abs using sum by (metis (no_types, lifting))
  have a2: "available ?c2 = (if ?Q then a_insufficent else available ?c1)"
    unfolding check_quality_claims_def fold_check_quality_claim_eq same wrapped ..
  have "?c2 = ?c2\<lparr>available := available ?c2\<rparr>"
    by simp
  also have "\<dots> = ?c1\<lparr>available := available ?c2\<rparr>"
    by (rule check_quality_claims_frame)
  also have "\<dots> = c\<lparr>available := available ?c2\<rparr>"
    by (rule check_tool_claim_frame)
  finally have frame: "?c2 = c\<lparr>available := available ?c2\<rparr>" .
  have run: "check_enough_materials_comp itypes u r c ci batch = (available ?c2 = a_true, ?c2)"
    using av by (simp add: check_enough_materials_comp_def Let_def)
  show ?thesis
  proof (cases "available ?c1 = a_insufficent \<or> ?Q")
    case True
    with a2 have a: "available ?c2 = a_insufficent" by auto
    have "?c2 = c\<lparr>available := a_insufficent\<rparr>"
      by (subst frame) (simp only: a)
    with True a show ?thesis by (simp add: run)
  next
    case False
    with c1 av have "available ?c1 = a_true" by auto
    with False a2 have a: "available ?c2 = a_true" by auto
    have "?c2 = c\<lparr>available := a_true\<rparr>"
      by (subst frame) (simp only: a)
    also have "\<dots> = c"
      using av by (metis component.surjective component.update_convs(3))
    finally have "?c2 = c" .
    with False a show ?thesis by (simp add: run)
  qed
qed

theorem quality_claims_demotion_witness:
  "check_enough_materials_comp knife_types nobody carving
      ((mk_component ''knife_steak'' 1)\<lparr>available := a_true\<rparr>) one_knife 1
     = (False, (mk_component ''knife_steak'' 1)\<lparr>available := a_insufficent\<rparr>) \<and>
   check_enough_materials_comp knife_types nobody carving
      ((mk_component ''knife_steak'' 1)\<lparr>available := a_true\<rparr>) two_knives 1
     = (True, (mk_component ''knife_steak'' 1)\<lparr>available := a_true\<rparr>) \<and>
   map (map available_q) (qualities (snd (can_make_with_inventory knife_types nobody carving one_knife 1)))
     = [[a_true]] \<and>
   map (map available) (components (snd (can_make_with_inventory knife_types nobody carving one_knife 1)))
     = [[a_insufficent]] \<and>
   map (map available) (components (snd (can_make_with_inventory knife_types nobody carving two_knives 1)))
     = [[a_true]]"
  using quality_claims_demotion [of "(mk_component ''knife_steak'' 1)\<lparr>available := a_true\<rparr>"
      knife_types carving nobody one_knife 1]
    quality_claims_demotion [of "(mk_component ''knife_steak'' 1)\<lparr>available := a_true\<rparr>"
      knife_types carving nobody two_knives 1]
  by (simp add: run_simps carving_def one_knife_def two_knives_def stock_def knife_types_def
      nobody_def)

text \<open>
  The claim as stated fails: one steak knife is held, two cutting tools are required (the
  requirement is annotated \<open>a_false\<close>), there is no tool requirement, and the knife as a
  component, annotated \<open>a_true\<close> by \<open>has_comps\<close>, ends \<open>a_insufficent\<close>.
\<close>

theorem unsatisfied_quality_demotes:
  "map (map available_q) (qualities (snd (can_make_with_inventory knife_types nobody knife_set one_knife 1)))
     = [[a_false]] \<and>
   map (map available) (components (has_comps_all knife_types nobody knife_set one_knife 1))
     = [[a_true]] \<and>
   tools knife_set = [] \<and>
   map (map available) (components (snd (can_make_with_inventory knife_types nobody knife_set one_knife 1)))
     = [[a_insufficent]]"
  by (simp add: run_simps has_comps_all_def knife_set_def one_knife_def stock_def knife_types_def
      nobody_def)

lemma find_by_type_type:
  assumes "find_by_type get_type vec t = Some x"
  shows "get_type x = t"
  using assms
proof (induction vec)
  case Nil
  then show ?case by simp
next
  case (Cons l vec)
  show ?case
  proof (cases "find (\<lambda>c. get_type c = t) l")
    case None
    with Cons show ?thesis by simp
  next
    case (Some y)
    with Cons.prems have "y = x" by simp
    with Some show ?thesis by (auto simp: find_Some_iff)
  qed
qed

text \<open>
  Claim C1, as amended. Batch 1; a component of item type \<open>X\<close> and count \<open>C\<close>; the first
  tool of type \<open>X\<close> in the tool list (the one \<open>find_by_type\<close> returns) is used by possession
  with magnitude \<open>T\<close>; \<open>T + C\<close> fits an \<open>int\<close>; the rope substitute of the player does not
  apply to \<open>X\<close>; the inventory answers the two queries the program makes for \<open>X\<close>,
  \<open>has_tools\<close> for the tool and, for the component, \<open>has_charges\<close> when \<open>X\<close> is counted by
  charges and \<open>has_components\<close> when it is not, as holding exactly \<open>T + C - 1\<close> units. Then
  the component is annotated \<open>a_insufficent\<close>.
\<close>

theorem tool_and_component_insufficient:
  assumes i: "i < length (components r)" and j: "j < length (components r ! i)"
    and cX: "type (components r ! i ! j) = X" and cC: "count (components r ! i ! j) = C"
    and tq: "find_by_type type (tools r) X = Some tq" and tT: "count tq = - T"
    and T: "1 \<le> T" and C: "1 \<le> C" and TC: "T + C < 2147483648"
    and rope: "\<not> web_rope u X"
    and ht: "\<forall>n. has_tools ci X n = (n \<le> T + C - 1)"
    and hc: "\<forall>n. (if count_by_charges (itypes X) then has_charges ci X n
                   else has_components ci X n) = (n \<le> T + C - 1)"
  shows "available (components (snd (can_make_with_inventory itypes u r ci 1)) ! i ! j)
           = a_insufficent"
proof -
  let ?r1 = "has_comps_all itypes u r ci 1"
  let ?c0 = "components r ! i ! j"
  let ?c1 = "?c0\<lparr>available := a_true\<rparr>"
  have absC: "int32 \<bar>C\<bar> = C" and absT: "int32 \<bar>- T\<bar> = T"
    and sum: "int32 (C + T) = C + T" and neg: "int32 (- (C + T)) = - (C + T)"
    and abssum: "int32 \<bar>C + T\<bar> = C + T" and absneg: "int32 \<bar>- (C + T)\<bar> = C + T"
    using T C TC by (simp_all add: int32_id)
  have C1: "int32 C = C" and T1: "int32 T = T" and sum1: "int32 (T + C) = T + C"
    and neg1: "int32 (- C - T) = - C - T"
    using T C TC by (simp_all add: int32_id)
  have tX: "type tq = X"
    using tq by (rule find_by_type_type)
  have held: "item_has itypes u ci 1 (c\<lparr>type := X, count := k\<rparr>) = (k \<le> T + C - 1)"
    if "0 \<le> k" and "k < 2147483648" for c k
    using rope that hc [rule_format, of k]
    by (cases "count_by_charges (itypes X)") (simp_all add: item_has_def int32_id)
  have "item_has itypes u ci 1 (?c0\<lparr>type := X, count := C\<rparr>)"
    using T C TC by (simp add: held)
  moreover have "?c0\<lparr>type := X, count := C\<rparr> = ?c0"
    using cX cC by (metis component.surjective component.update_convs(1,2))
  ultimately have has_c0: "item_has itypes u ci 1 ?c0"
    by simp
  have c1: "components ?r1 ! i ! j = ?c1"
    using i j has_c0 by (simp add: has_comps_all_def)
  have has_tq: "tool_has ci 1 tq"
    using T C by (simp add: tool_has_def by_charges_def tT T1 tX ht)
  have "find_by_type type (tools ?r1) X =
      map_option (\<lambda>t. t\<lparr>available := (if tool_has ci 1 t then a_true else a_false)\<rparr>)
        (find_by_type type (tools r) X)"
    by (simp add: has_comps_all_def find_by_type_map)
  with tq has_tq have tq1: "find_by_type type (tools ?r1) X = Some (tq\<lparr>available := a_true\<rparr>)"
    by simp
  have "\<not> item_has itypes u ci 1 ((mk_component X (C + T))\<lparr>type := X, count := C + T\<rparr>)"
    using T C TC by (simp add: held)
  then have no_item: "\<not> item_has itypes u ci 1 (mk_component X (C + T))"
    by (simp add: mk_component_def)
  have no_tool: "\<not> tool_has ci 1 (mk_component X (- (C + T)))"
    using T C by (simp add: tool_has_def by_charges_def mk_component_def absneg sum sum1 ht)
  have tool_step: "check_tool_claim itypes u ?r1 ci 1 ?c1 = ?c1\<lparr>available := a_insufficent\<rparr>"
    using T no_item no_tool
    by (simp add: check_tool_claim_def tq1 cX cC absC C1 T1 by_charges_def tT absT sum neg neg1)
  have "available (check_quality_claims itypes ?r1 ci (?c1\<lparr>available := a_insufficent\<rparr>))
      = a_insufficent"
    using fold_check_quality_claim_available
      [of ?r1 ci "qualities_t (itypes (type (?c1\<lparr>available := a_insufficent\<rparr>)))"
          "?c1\<lparr>available := a_insufficent\<rparr>"]
    by (auto simp: check_quality_claims_def)
  then have "available (snd (check_enough_materials_comp itypes u ?r1 ?c1 ci 1)) = a_insufficent"
    by (simp add: check_enough_materials_comp_def tool_step)
  moreover have "components (snd (can_make_with_inventory itypes u r ci 1)) ! i ! j =
      snd (check_enough_materials_comp itypes u ?r1 (components ?r1 ! i ! j) ci 1)"
    using i j by (simp add: can_make_state materials_checked_def has_comps_all_def)
  ultimately show ?thesis by (simp only: c1)
qed

theorem tool_and_component_insufficient_witness:
  "map (map available) (components (snd (can_make_with_inventory plain_types nobody jack_stand
      four_jacks 1))) = [[a_insufficent]] \<and>
   \<not> has_charges four_jacks ''jack'' 1"
  using tool_and_component_insufficient [of 0 jack_stand 0 "''jack''" 3
      "mk_component ''jack'' (- 2)" 2 nobody four_jacks plain_types]
  by (simp add: run_simps jack_stand_def four_jacks_def plain_types_def nobody_def)

text \<open>
  The claim as stated fails when the item type is listed as a tool twice: with jacks required
  by possession once with magnitude 1 and once with magnitude 3, one jack as component and
  3 + 1 - 1 jacks held, only the first tool entry is consulted and the component stays \<open>a_true\<close>.
\<close>

theorem second_tool_entry_ignored:
  "map (map type) (tools double_jack) = [[''jack''], [''jack'']] \<and>
   map (map count) (tools double_jack) = [[- 1], [- 3]] \<and>
   map (map count) (components double_jack) = [[1]] \<and>
   map (map available) (components (snd (can_make_with_inventory plain_types nobody double_jack
      (only ''jack'' (3 + 1 - 1)) 1))) = [[a_true]]"
  by (simp add: run_simps double_jack_def only_def stock_def plain_types_def nobody_def)

text \<open>
  It fails too when the player spins rope: the component is satisfied without the inventory.
\<close>

lemma web_rope_overrides:
  "map (map available) (components (snd (can_make_with_inventory plain_types spider rope_work
      (only ''rope_30'' (1 + 1 - 1)) 1))) = [[a_true]]"
  by (simp add: run_simps rope_work_def only_def stock_def plain_types_def spider_def)

section \<open>Properties of the algebra\<close>

lemma scale_count_exact:
  assumes "n < 2147483648"
    and "- 2147483648 \<le> count e * int n" and "count e * int n < 2147483648"
  shows "scale_count n e = e\<lparr>count := max (count e * int n) (- 1)\<rparr>"
proof -
  have "int32 (int n) = int n"
    using assms(1) by (simp add: int32_id)
  moreover have "int32 (count e * int n) = count e * int n"
    using assms(2,3) by (rule int32_id)
  ultimately show ?thesis by (simp add: scale_count_def)
qed

lemma max_by_charges:
  fixes c :: int
  assumes "0 < c"
  shows "max (c * int n) (- 1) = c * int n"
proof -
  from assms have "0 \<le> c * int n" by simp
  then show ?thesis by simp
qed

lemma max_by_possession:
  fixes c :: int
  assumes "0 < n" and "c < 0"
  shows "max (c * int n) (- 1) = - 1"
proof -
  from assms have "c * int n \<le> c * 1"
    by (intro mult_left_mono_neg) auto
  also have "\<dots> = c" by simp
  also from assms(2) have "\<dots> \<le> - 1" by simp
  finally show ?thesis by simp
qed

text \<open>
  Claim C4, as amended. For a positive scalar that fits an \<open>int\<close>, \<open>operator*\<close> keeps the
  qualities, the identifier and the shape of the tool and component lists, and every tool or
  component whose product \<open>count * n\<close> fits an \<open>int\<close> gets the count \<open>max (count * n) (-1)\<close>
  and is otherwise unchanged: a positive count is multiplied by \<open>n\<close>, a negative count
  becomes \<open>-1\<close>.
\<close>

theorem operator_mult_counts:
  assumes "0 < n" and "n < 2147483648"
  shows "qualities (operator_mult R n) = qualities R \<and>
    id_r (operator_mult R n) = id_r R \<and>
    length (tools (operator_mult R n)) = length (tools R) \<and>
    length (components (operator_mult R n)) = length (components R) \<and>
    (\<forall>i < length (tools R).
       length (tools (operator_mult R n) ! i) = length (tools R ! i) \<and>
       (\<forall>j < length (tools R ! i).
          - 2147483648 \<le> count (tools R ! i ! j) * int n \<and>
          count (tools R ! i ! j) * int n < 2147483648 \<longrightarrow>
          tools (operator_mult R n) ! i ! j =
            (tools R ! i ! j)\<lparr>count := max (count (tools R ! i ! j) * int n) (- 1)\<rparr> \<and>
          (0 < count (tools R ! i ! j) \<longrightarrow>
             count (tools (operator_mult R n) ! i ! j) = count (tools R ! i ! j) * int n) \<and>
          (count (tools R ! i ! j) < 0 \<longrightarrow>
             count (tools (operator_mult R n) ! i ! j) = - 1))) \<and>
    (\<forall>i < length (components R).
       length (components (operator_mult R n) ! i) = length (components R ! i) \<and>
       (\<forall>j < length (components R ! i).
          - 2147483648 \<le> count (components R ! i ! j) * int n \<and>
          count (components R ! i ! j) * int n < 2147483648 \<longrightarrow>
          components (operator_mult R n) ! i ! j =
            (components R ! i ! j)\<lparr>count := max (count (components R ! i ! j) * int n) (- 1)\<rparr>))"
  using assms
  by (auto simp: operator_mult_def scale_count_exact max_by_charges max_by_possession)

theorem operator_mult_counts_witness:
  "map (map count) (tools (operator_mult soldering 4)) = [[40], [- 1]] \<and>
   map (map count) (components (operator_mult soldering 4)) = [[12]] \<and>
   qualities (operator_mult soldering 4) = qualities soldering"
  using operator_mult_counts [of 4 soldering]
  by (simp add: operator_mult_def scale_count_def int32_def soldering_def mk_component_def)

text \<open>
  The claim as stated fails for a scalar above the range of \<open>int\<close>: \<open>int( 4294967295u )\<close>
  is \<open>-1\<close>, so ten charges become the count \<open>-1\<close>, a tool used by possession.
\<close>

theorem operator_mult_wraps:
  "count (tools (operator_mult soldering 4294967295) ! 0 ! 0) = - 1 \<and>
   max (count (tools soldering ! 0 ! 0) * int 4294967295) (- 1) = 42949672950"
  by (simp add: operator_mult_def scale_count_def int32_def soldering_def mk_component_def)

text \<open>
  Claim C5. \<open>operator+\<close> appends the component, tool and quality groups of the right operand
  to those of the left one, so that the lengths add up and every group of either operand is in
  the result as it was; the identifier of the result is \<open>NULL_ID\<close>.
\<close>

theorem operator_add_concat:
  "components (operator_add a b) = components a @ components b \<and>
   tools (operator_add a b) = tools a @ tools b \<and>
   qualities (operator_add a b) = qualities a @ qualities b \<and>
   length (components (operator_add a b)) = length (components a) + length (components b) \<and>
   length (tools (operator_add a b)) = length (tools a) + length (tools b) \<and>
   length (qualities (operator_add a b)) = length (qualities a) + length (qualities b) \<and>
   id_r (operator_add a b) = NULL_ID"
  by (simp add: operator_add_def)

section \<open>Properties of the disassembly derivation\<close>

lemma tool_replacement_welder:
  assumes "type t = ''welder''"
    and "\<forall>x\<in>set pre. type x \<noteq> ''sewing_kit'' \<and> type x \<noteq> ''mold_plastic'' \<and> type x \<noteq> ''crucible''"
  shows "tool_replacement (pre @ t # post) = Some [mk_quality_requirement ''SAW_M_FINE'' 1 1]"
  using assms by (induction pre) auto

text \<open>
  Claim C7, as amended. When the requirement has no quality group and its only tool group
  holds a welder before any sewing kit, plastic mold or crucible, the disassembly requirement
  has no tool group and one quality group, holding the one requirement \<open>SAW_M_FINE\<close> of
  level 1 and count 1.
\<close>

theorem disassembly_welder_group:
  assumes "tools r = [pre @ t # post]" and "type t = ''welder''"
    and "\<forall>x\<in>set pre. type x \<noteq> ''sewing_kit'' \<and> type x \<noteq> ''mold_plastic'' \<and> type x \<noteq> ''crucible''"
    and "qualities r = []"
  shows "tools (disassembly_requirements itypes r) = [] \<and>
    qualities (disassembly_requirements itypes r) = [[mk_quality_requirement ''SAW_M_FINE'' 1 1]] \<and>
    type_q (mk_quality_requirement ''SAW_M_FINE'' 1 1) = ''SAW_M_FINE'' \<and>
    level (mk_quality_requirement ''SAW_M_FINE'' 1 1) = 1 \<and>
    count_q (mk_quality_requirement ''SAW_M_FINE'' 1 1) = 1"
  using assms(1,4) tool_replacement_welder [OF assms(2,3), of post]
  by (simp add: disassembly_requirements_def mk_quality_requirement_def)

theorem disassembly_welder_group_witness:
  "tools (disassembly_requirements plain_types welded_only) = [] \<and>
   qualities (disassembly_requirements plain_types welded_only) =
     [[mk_quality_requirement ''SAW_M_FINE'' 1 1]]"
  using disassembly_welder_group [of welded_only "[mk_component ''goggles_welding'' (- 1)]"
      "mk_component ''welder'' 50" "[mk_component ''sewing_kit'' 5]" plain_types]
  by (simp add: welded_only_def mk_component_def)

text \<open>
  The claim as stated fails when the requirement has qualities of its own: they are kept, and
  the sawing requirement is appended to the first group.
\<close>

theorem disassembly_welder_keeps_qualities:
  "tools welded_frame = [[mk_component ''welder'' 50]] \<and>
   tools (disassembly_requirements plain_types welded_frame) = [] \<and>
   qualities (disassembly_requirements plain_types welded_frame) =
     [[mk_quality_requirement ''HAMMER'' 1 2, mk_quality_requirement ''SAW_M_FINE'' 1 1]]"
  by (simp add: disassembly_requirements_def welded_frame_def mk_component_def
      mk_quality_requirement_def)

text \<open>
  Claim C6 fails on the code: \<open>std::unique\<close> removes only neighbouring duplicates. A sewing
  kit, a welder and a plastic mold in three tool groups give the first quality group
  \<open>CUT\<close>, \<open>SAW_M_FINE\<close>, \<open>CUT\<close>.
\<close>

theorem disassembly_duplicate_qualities:
  "map type_q (hd (qualities (disassembly_requirements plain_types tailored_armor))) =
     [''CUT'', ''SAW_M_FINE'', ''CUT''] \<and>
   \<not> distinct (map type_q (hd (qualities (disassembly_requirements plain_types tailored_armor))))"
  by (simp add: disassembly_requirements_def tailored_armor_def mk_component_def
      mk_quality_requirement_def)

text \<open>
  Claim C8. A component group whose members are all unrecoverable (\<open>recoverable\<close> false or
  the item type flagged \<open>UNRECOVERABLE\<close>) leaves nothing in the disassembly requirement: the
  component list is the one derived without the group, it contains no empty group and not the
  group itself, and it is shorter than the list it is derived from.
\<close>

theorem disassembly_drops_unrecoverable_group:
  assumes "components r = pre @ g # post"
    and "\<forall>c\<in>set g. unrecoverable itypes c"
  shows "components (disassembly_requirements itypes r) =
      components (disassembly_requirements itypes (r\<lparr>components := pre @ post\<rparr>)) \<and>
    [] \<notin> set (components (disassembly_requirements itypes r)) \<and>
    g \<notin> set (components (disassembly_requirements itypes r)) \<and>
    length (components (disassembly_requirements itypes r)) < length (components r)"
proof -
  let ?keep = "filter (\<lambda>c. \<not> unrecoverable itypes c)"
  have comps: "components (disassembly_requirements itypes r') =
      filter (\<lambda>cov. cov \<noteq> []) (map ?keep (components r'))" for r'
    by (simp add: disassembly_requirements_def Let_def split: prod.splits)
  from assms(2) have empty: "?keep g = []"
    by (simp add: filter_empty_conv)
  have same: "components (disassembly_requirements itypes r) =
      components (disassembly_requirements itypes (r\<lparr>components := pre @ post\<rparr>))"
    by (simp add: comps assms(1) empty)
  have no_empty: "[] \<notin> set (components (disassembly_requirements itypes r))"
    by (simp add: comps)
  have absent: "g \<notin> set (components (disassembly_requirements itypes r))"
  proof
    assume "g \<in> set (components (disassembly_requirements itypes r))"
    then obtain g' where g': "g = ?keep g'" and ne: "g \<noteq> []"
      by (auto simp: comps)
    from ne have c: "hd g \<in> set g"
      by simp
    with g' have "\<not> unrecoverable itypes (hd g)"
      by simp
    with c assms(2) show False by blast
  qed
  have "length (components (disassembly_requirements itypes r)) \<le> length (map ?keep (pre @ post))"
    unfolding comps assms(1) by (simp add: empty le_SucI add_le_mono)
  then have shorter: "length (components (disassembly_requirements itypes r)) < length (components r)"
    by (simp add: assms(1))
  from same no_empty absent shorter show ?thesis by blast
qed

theorem disassembly_drops_unrecoverable_group_witness:
  "components (disassembly_requirements glue_types glued_box) =
     [[mk_component ''plank'' 4], [mk_component ''nail'' 8]]"
  using disassembly_drops_unrecoverable_group
    [of glued_box "[[mk_component ''plank'' 4]]"
        "[(mk_component ''superglue'' 1)\<lparr>recoverable := False\<rparr>, mk_component ''duct_tape'' 20]"
        "[[mk_component ''nail'' 8]]" glue_types]
  by (simp add: disassembly_requirements_def glued_box_def glue_types_def unrecoverable_def
      mk_component_def)

lemma tool_replacement_none:
  assumes "\<forall>t\<in>set g. type t \<notin> {''welder'', ''welder_crude'', ''oxy_torch'', ''forge'',
      ''char_forge'', ''sewing_kit'', ''mold_plastic'', ''crucible''}"
  shows "tool_replacement g = None"
  using assms by (induction g) auto

lemma replace_tools_none:
  assumes "\<forall>g\<in>set ts. tool_replacement g = None"
  shows "replace_tools ts nq = (ts, nq)"
  using assms by (induction ts arbitrary: nq) auto

lemma can_make_empty_group:
  assumes "[] \<in> set (qualities r) \<or> [] \<in> set (tools r) \<or> [] \<in> set (components r)"
  shows "\<not> fst (can_make_with_inventory itypes u r ci batch)"
proof
  assume "fst (can_make_with_inventory itypes u r ci batch)"
  then have q: "\<forall>g\<in>set (qualities r). \<exists>q\<in>set g. quality_has ci q"
    and t: "\<forall>g\<in>set (tools r). \<exists>t\<in>set g. tool_has ci batch t"
    and c: "\<forall>g\<in>set (components r). \<exists>c\<in>set g. item_has itypes u ci batch c"
    by (simp_all add: can_make_result)
  from assms show False
  proof (elim disjE)
    assume "[] \<in> set (qualities r)"
    with q show False by fastforce
  next
    assume "[] \<in> set (tools r)"
    with t show False by fastforce
  next
    assume "[] \<in> set (components r)"
    with c show False by fastforce
  qed
qed

text \<open>
  Claim C9. If the requirement has no quality group and no tool of the substitution table,
  the quality list of the disassembly requirement is one empty group, and
  \<open>can_make_with_inventory\<close> is false on it for every inventory and batch; it is false on
  every requirement that has an empty group among its qualities, tools or components.
\<close>

theorem disassembly_empty_quality_group:
  "(qualities r = [] \<and>
    (\<forall>g\<in>set (tools r). \<forall>t\<in>set g. type t \<notin> {''welder'', ''welder_crude'', ''oxy_torch'',
       ''forge'', ''char_forge'', ''sewing_kit'', ''mold_plastic'', ''crucible''}) \<longrightarrow>
    qualities (disassembly_requirements itypes r) = [[]] \<and>
    \<not> fst (can_make_with_inventory itypes' u (disassembly_requirements itypes r) ci batch)) \<and>
   ([] \<in> set (qualities r') \<or> [] \<in> set (tools r') \<or> [] \<in> set (components r') \<longrightarrow>
    \<not> fst (can_make_with_inventory itypes' u r' ci batch))"
proof (intro conjI impI)
  assume a: "qualities r = [] \<and>
    (\<forall>g\<in>set (tools r). \<forall>t\<in>set g. type t \<notin> {''welder'', ''welder_crude'', ''oxy_torch'',
       ''forge'', ''char_forge'', ''sewing_kit'', ''mold_plastic'', ''crucible''})"
  then have "\<forall>g\<in>set (tools r). tool_replacement g = None"
    by (blast intro: tool_replacement_none)
  then have "replace_tools (tools r) [] = (tools r, [])"
    by (rule replace_tools_none)
  with a show q: "qualities (disassembly_requirements itypes r) = [[]]"
    by (simp add: disassembly_requirements_def)
  show "\<not> fst (can_make_with_inventory itypes' u (disassembly_requirements itypes r) ci batch)"
    by (rule can_make_empty_group) (simp add: q)
next
  assume "[] \<in> set (qualities r') \<or> [] \<in> set (tools r') \<or> [] \<in> set (components r')"
  then show "\<not> fst (can_make_with_inventory itypes' u r' ci batch)"
    by (rule can_make_empty_group)
qed

theorem disassembly_empty_quality_group_witness:
  "qualities (disassembly_requirements plain_types glued_box) = [[]] \<and>
   \<not> fst (can_make_with_inventory plain_types nobody
           (disassembly_requirements plain_types glued_box) toolbox 1) \<and>
   \<not> fst (can_make_with_inventory plain_types nobody empty_tool_group toolbox 1)"
  using disassembly_empty_quality_group
    [of glued_box plain_types plain_types nobody toolbox 1 empty_tool_group]
  by (simp add: glued_box_def empty_tool_group_def mk_component_def)

end
